theory Spec2Isabelle
  imports Complex_Main "HOL-Library.Multiset" "HOL-Library.Sublist"
begin

section \<open>Hybrid name matching (app.py)\<close>

text \<open>
  The program ranks the names of a reference list against a query: a bulk string
  similarity score (rapidfuzz), a case-insensitive exclusion of the query itself, a
  de-duplication by name, a phonetic bonus of ten points (jellyfish Soundex, read from a
  module-level dictionary built once), a descending sort and a cut to the first
  \<open>top_n\<close> rows.

  Python floats are modelled as \<open>real\<close>: the claims below are about the order and the
  bounds of the scores, not about rounding. Strings are \<open>string\<close>; a character outside
  ASCII is written as the bytes of its UTF-8 encoding.
\<close>

subsection \<open>Data\<close>

text \<open>
  A row of the frame built in line 54,
  \<^verbatim>\<open>pd.DataFrame(matches, columns=['Matched Name', 'WRatio Score', 'Index'])\<close>,
  and the same row once line 76 has added the column \<^verbatim>\<open>'Hybrid Score'\<close>.
\<close>

record match_row =
  Matched_Name :: string
  WRatio_Score :: real
  Index :: nat

record scored_row = match_row +
  Hybrid_Score :: real

text \<open>
  A row of the frame that is returned,
  \<^verbatim>\<open>df[['Matched Name', 'Hybrid Score', 'WRatio Score']]\<close> (the column Index is dropped).
\<close>

record ranked_row =
  r_name :: string
  r_hybrid :: real
  r_wratio :: real

text \<open>
  The module-level variables: the reference list \<^verbatim>\<open>names\<close> and the dictionary
  \<^verbatim>\<open>name_soundex_map\<close> of line 35. A dictionary is a map; \<^verbatim>\<open>d.get(k)\<close> is the
  application \<open>d k\<close>, with \<open>None\<close> for a missing key.
\<close>

record globals =
  names :: "string list"
  name_soundex_map :: "string \<rightharpoonup> string"

text \<open>
  The library functions the program calls are not part of it; they are parameters of the
  model:
  \<^item> \<open>fuzz_WRatio\<close> is \<^verbatim>\<open>rapidfuzz.fuzz.WRatio\<close>, the base similarity scorer;
  \<^item> \<open>jellyfish_soundex\<close> is \<^verbatim>\<open>jellyfish.soundex\<close>, the phonetic encoder;
  \<^item> \<open>str_lower\<close> is Python's \<^verbatim>\<open>str.lower\<close>, which line 57 applies to the query;
  \<^item> \<open>Series_str_lower\<close> is the lower-casing of pandas' string accessor,
    \<^verbatim>\<open>df['Matched Name'].str.lower()\<close>, which line 57 applies to the names. It is a
    routine of its own: nothing in the program makes it agree with \<^verbatim>\<open>str.lower\<close>;
  \<^item> \<open>sort_values\<close> is \<^verbatim>\<open>df.sort_values(by='Hybrid Score', ascending=False)\<close>. The
    call passes no \<^verbatim>\<open>kind\<close>, so pandas sorts with its default algorithm, quicksort,
    which is not a stable one. What is known of the call is therefore the contract
    \<open>sorts_descending\<close> below: the rows come back rearranged, in descending order of the
    key. How rows with equal keys are ordered is up to the library.
  Each of them is a function: the same arguments give the same value.
\<close>

record library =
  fuzz_WRatio :: "string \<Rightarrow> string \<Rightarrow> real"
  jellyfish_soundex :: "string \<Rightarrow> string"
  str_lower :: "string \<Rightarrow> string"
  Series_str_lower :: "string \<Rightarrow> string"
  sort_values :: "scored_row list \<Rightarrow> scored_row list"

definition sorts_descending :: "(scored_row list \<Rightarrow> scored_row list) \<Rightarrow> bool" where
  "sorts_descending srt \<longleftrightarrow>
     (\<forall>df. mset (srt df) = mset df \<and>
           sorted_wrt (\<lambda>a b. Hybrid_Score b \<le> Hybrid_Score a) (srt df))"

text \<open>
  Two properties of a scorer: its values lie between 0 and 100, and it gives the top value
  100 to a candidate only when the candidate is the query itself.
\<close>

definition scores_bounded :: "(string \<Rightarrow> string \<Rightarrow> real) \<Rightarrow> bool" where
  "scores_bounded scorer \<longleftrightarrow> (\<forall>q c. 0 \<le> scorer q c \<and> scorer q c \<le> 100)"

definition identical_only_at_100 :: "(string \<Rightarrow> string \<Rightarrow> real) \<Rightarrow> bool" where
  "identical_only_at_100 scorer \<longleftrightarrow> (\<forall>q c. scorer q c = 100 \<longrightarrow> c = q)"

subsection \<open>Phonetic precomputation (line 35)\<close>

text \<open>\<^verbatim>\<open>name_soundex_map = {name: jellyfish.soundex(name) for name in names}\<close>\<close>

definition build_soundex_map :: "(string \<Rightarrow> string) \<Rightarrow> string list \<Rightarrow> (string \<rightharpoonup> string)" where
  "build_soundex_map encode ns = fold (\<lambda>name m. m(name \<mapsto> encode name)) ns Map.empty"

definition module_globals :: "library \<Rightarrow> string list \<Rightarrow> globals" where
  "module_globals lib ns =
     \<lparr>names = ns, name_soundex_map = build_soundex_map (jellyfish_soundex lib) ns\<rparr>"

subsection \<open>The steps of \<^verbatim>\<open>get_hybrid_matches\<close>\<close>

text \<open>
  \<^verbatim>\<open>process.extract(query, choices, scorer=..., limit=...)\<close>: every choice is scored, the
  triples (choice, score, index) are ordered by descending score, equal scores by
  ascending index, and the first \<open>limit\<close> are returned. No score cutoff is passed.
\<close>

definition process_extract ::
  "(string \<Rightarrow> string \<Rightarrow> real) \<Rightarrow> string \<Rightarrow> string list \<Rightarrow> nat \<Rightarrow> (string \<times> real \<times> nat) list" where
  "process_extract scorer query choices limit =
     take limit
       (sort_key (\<lambda>(c, s, i). - s)
          (map (\<lambda>(i, c). (c, scorer query c, i)) (enumerate 0 choices)))"

definition DataFrame :: "(string \<times> real \<times> nat) list \<Rightarrow> match_row list" where
  "DataFrame matches =
     map (\<lambda>(c, s, i). \<lparr>Matched_Name = c, WRatio_Score = s, Index = i\<rparr>) matches"

text \<open>
  \<^verbatim>\<open>df.drop_duplicates(subset=['Matched Name'])\<close>: the rows are read in order and a row is
  dropped when its name was seen in an earlier row (pandas' default \<^verbatim>\<open>keep='first'\<close>).
\<close>

fun drop_duplicates_seen :: "string list \<Rightarrow> match_row list \<Rightarrow> match_row list" where
  "drop_duplicates_seen seen [] = []"
| "drop_duplicates_seen seen (r # df) =
     (if Matched_Name r \<in> set seen then drop_duplicates_seen seen df
      else r # drop_duplicates_seen (Matched_Name r # seen) df)"

definition drop_duplicates :: "match_row list \<Rightarrow> match_row list" where
  "drop_duplicates df = drop_duplicates_seen [] df"

text \<open>
  The closure \<^verbatim>\<open>calculate_bonus_score(row)\<close> of lines 64 to 74. It captures
  \<open>query_soundex\<close> and reads the global dictionary; the globals are passed in and handed
  back.
\<close>

definition calculate_bonus_score :: "string \<Rightarrow> match_row \<Rightarrow> globals \<Rightarrow> real \<times> globals" where
  "calculate_bonus_score query_soundex row g =
     (let soundex_match =
            (if Some query_soundex = name_soundex_map g (Matched_Name row) then 100 else 0 :: real);
          phonetic_bonus = soundex_match * 0.10;
          hybrid_score = WRatio_Score row + phonetic_bonus
      in (min 100.0 hybrid_score, g))"

text \<open>
  \<^verbatim>\<open>df.apply(f, axis=1)\<close>: \<open>f\<close> is called on each row in turn, and the values form the
  new column. A frame without rows gives a column without values.
\<close>

fun df_apply ::
  "(match_row \<Rightarrow> globals \<Rightarrow> real \<times> globals) \<Rightarrow> match_row list \<Rightarrow> globals \<Rightarrow> real list \<times> globals" where
  "df_apply f [] g = ([], g)"
| "df_apply f (row # df) g =
     (let (v, g1) = f row g;
          (vs, g2) = df_apply f df g1
      in (v # vs, g2))"

text \<open>
  \<^verbatim>\<open>df['Hybrid Score'] = column\<close>: after \<^verbatim>\<open>reset_index(drop=True)\<close> the frame and the
  column carry the same index, so the values are attached by position.
\<close>

definition with_hybrid :: "match_row \<Rightarrow> real \<Rightarrow> scored_row" where
  "with_hybrid r h =
     \<lparr>Matched_Name = Matched_Name r, WRatio_Score = WRatio_Score r, Index = Index r,
      Hybrid_Score = h\<rparr>"

definition set_Hybrid_Score :: "match_row list \<Rightarrow> real list \<Rightarrow> scored_row list" where
  "set_Hybrid_Score df col = map (\<lambda>(r, h). with_hybrid r h) (zip df col)"

text \<open>\<^verbatim>\<open>df.head(n)\<close> is \<^verbatim>\<open>df.iloc[:n]\<close>: a negative \<open>n\<close> drops the last \<open>-n\<close> rows.\<close>

definition head :: "int \<Rightarrow> 'a list \<Rightarrow> 'a list" where
  "head n df = (if 0 \<le> n then take (nat n) df else take (nat (int (length df) + n)) df)"

definition select_columns :: "scored_row \<Rightarrow> ranked_row" where
  "select_columns r =
     \<lparr>r_name = Matched_Name r, r_hybrid = Hybrid_Score r, r_wratio = WRatio_Score r\<rparr>"

subsection \<open>\<^verbatim>\<open>get_hybrid_matches\<close> (lines 38 to 87)\<close>

definition get_hybrid_matches ::
  "library \<Rightarrow> string \<Rightarrow> string list \<Rightarrow> int \<Rightarrow> globals
     \<Rightarrow> ((string \<times> real) option \<times> ranked_row list) \<times> globals" where
  "get_hybrid_matches lib query name_list top_n g =
     (let matches = process_extract (fuzz_WRatio lib) query name_list (length name_list);
          df1 = DataFrame matches;
          df2 = filter (\<lambda>r. Series_str_lower lib (Matched_Name r) \<noteq> str_lower lib query) df1;
          df3 = drop_duplicates df2;
          query_soundex = jellyfish_soundex lib query;
          (column, g') = df_apply (calculate_bonus_score query_soundex) df3 g;
          df4 = set_Hybrid_Score df3 column;
          df5 = head top_n (sort_values lib df4)
      in case df5 of
           [] \<Rightarrow> ((None, []), g')
         | row0 # _ \<Rightarrow>
             ((Some (Matched_Name row0, Hybrid_Score row0), map select_columns df5), g'))"

text \<open>
  The frame after lines 46 to 58 (scoring, exclusion, de-duplication): the surviving
  candidates, in the order the scoring step gave them.
\<close>

definition surviving :: "library \<Rightarrow> string \<Rightarrow> string list \<Rightarrow> match_row list" where
  "surviving lib query name_list =
     drop_duplicates
       (filter (\<lambda>r. Series_str_lower lib (Matched_Name r) \<noteq> str_lower lib query)
          (DataFrame (process_extract (fuzz_WRatio lib) query name_list (length name_list))))"

text \<open>The value \<^verbatim>\<open>calculate_bonus_score\<close> returns for a row, as a function of the dictionary.\<close>

definition hybrid_score :: "(string \<rightharpoonup> string) \<Rightarrow> string \<Rightarrow> match_row \<Rightarrow> real" where
  "hybrid_score idx query_soundex row =
     min 100 (WRatio_Score row + 10 * (if idx (Matched_Name row) = Some query_soundex then 1 else 0))"

text \<open>The frame after line 76: the surviving candidates with their hybrid scores.\<close>

definition scored :: "library \<Rightarrow> (string \<rightharpoonup> string) \<Rightarrow> string \<Rightarrow> string list \<Rightarrow> scored_row list" where
  "scored lib idx query name_list =
     map (\<lambda>r. with_hybrid r (hybrid_score idx (jellyfish_soundex lib query) r))
       (surviving lib query name_list)"

subsection \<open>Sample collaborators\<close>

text \<open>
  The theorems below hold for every scorer, encoder, lower-casing function and sorting
  routine. To apply them to concrete runs, this section fixes one choice of each: the share
  of the common prefix as similarity score, the first letter followed by the consonants as
  phonetic code, and insertion sort on the negated hybrid score. They stand in for the
  libraries in the examples only.

  The two lower-casing functions follow the libraries on the ASCII letters and on the
  letter U+0130, capital I with a dot above, whose UTF-8 bytes are C4 B0; other characters
  are left as they are. Python's \<^verbatim>\<open>str.lower\<close> uses the full case mapping of Unicode,
  which turns U+0130 into \<open>i\<close> followed by the combining dot U+0307 (bytes CC 87). The
  lower-casing of Arrow strings, which pandas' string accessor uses, maps one code point to
  one code point and turns U+0130 into \<open>i\<close>.
\<close>

definition ascii_lower_char :: "char \<Rightarrow> char" where
  "ascii_lower_char c =
     (case map_of (zip ''ABCDEFGHIJKLMNOPQRSTUVWXYZ'' ''abcdefghijklmnopqrstuvwxyz'') c of
        Some d \<Rightarrow> d | None \<Rightarrow> c)"

fun python_lower :: "string \<Rightarrow> string" where
  "python_lower [] = []"
| "python_lower [a] = [ascii_lower_char a]"
| "python_lower (a # b # s) =
     (if a = CHR 0xC4 \<and> b = CHR 0xB0 then CHR ''i'' # CHR 0xCC # CHR 0x87 # python_lower s
      else ascii_lower_char a # python_lower (b # s))"

fun arrow_lower :: "string \<Rightarrow> string" where
  "arrow_lower [] = []"
| "arrow_lower [a] = [ascii_lower_char a]"
| "arrow_lower (a # b # s) =
     (if a = CHR 0xC4 \<and> b = CHR 0xB0 then CHR ''i'' # arrow_lower s
      else ascii_lower_char a # arrow_lower (b # s))"

fun common_prefix :: "string \<Rightarrow> string \<Rightarrow> nat" where
  "common_prefix (a # as) (b # bs) = (if a = b then Suc (common_prefix as bs) else 0)"
| "common_prefix _ _ = 0"

definition prefix_ratio :: "string \<Rightarrow> string \<Rightarrow> real" where
  "prefix_ratio q c =
     (if q = [] \<or> c = [] then 0
      else 100 * real (common_prefix q c) / real (max (length q) (length c)))"

definition consonant_code :: "string \<Rightarrow> string" where
  "consonant_code s =
     (case s of [] \<Rightarrow> [] | c # cs \<Rightarrow> c # filter (\<lambda>x. x \<notin> set ''aeiouyhw'') cs)"

definition stable_sort_values :: "scored_row list \<Rightarrow> scored_row list" where
  "stable_sort_values df = sort_key (\<lambda>r. - Hybrid_Score r) df"

definition sample_library :: library where
  "sample_library =
     \<lparr>fuzz_WRatio = prefix_ratio, jellyfish_soundex = consonant_code,
      str_lower = python_lower, Series_str_lower = arrow_lower,
      sort_values = stable_sort_values\<rparr>"

definition sample_names :: "string list" where
  "sample_names = [''Geetha'', ''Smith'', ''Gita'', ''GITHA'', ''Gitu'', ''Gita'']"

definition sample_globals :: globals where
  "sample_globals = module_globals sample_library sample_names"

text \<open>
  Globals whose dictionary was built from an older, shorter reference list: the names
  added since then are missing from it.
\<close>

definition stale_globals :: globals where
  "stale_globals = module_globals sample_library [''Geetha'', ''Smith'', ''Gitu'']"

text \<open>The letter U+0130, as the bytes of its UTF-8 encoding.\<close>

definition dotted_I :: string where
  "dotted_I = [CHR 0xC4, CHR 0xB0]"

section \<open>Basic facts\<close>

lemma calculate_bonus_score_eq:
  "calculate_bonus_score qs row g = (hybrid_score (name_soundex_map g) qs row, g)"
  by (auto simp: calculate_bonus_score_def hybrid_score_def Let_def)

lemma df_apply_calculate_bonus_score:
  "df_apply (calculate_bonus_score qs) df g = (map (hybrid_score (name_soundex_map g) qs) df, g)"
  by (induction df) (simp_all add: calculate_bonus_score_eq)

lemma set_Hybrid_Score_map:
  "set_Hybrid_Score df (map f df) = map (\<lambda>r. with_hybrid r (f r)) df"
  by (simp add: set_Hybrid_Score_def zip_map2 zip_same_conv_map)

lemma get_hybrid_matches_eq:
  "get_hybrid_matches lib query name_list top_n g =
     (case head top_n (sort_values lib (scored lib (name_soundex_map g) query name_list)) of
        [] \<Rightarrow> ((None, []), g)
      | row0 # rest \<Rightarrow>
          ((Some (Matched_Name row0, Hybrid_Score row0), map select_columns (row0 # rest)), g))"
  by (simp add: get_hybrid_matches_def Let_def df_apply_calculate_bonus_score
      set_Hybrid_Score_map scored_def surviving_def split: list.splits)

lemma sorts_descending_mset: "sorts_descending srt \<Longrightarrow> mset (srt df) = mset df"
  by (simp add: sorts_descending_def)

lemma sorts_descending_set: "sorts_descending srt \<Longrightarrow> set (srt df) = set df"
  using sorts_descending_mset mset_eq_setD by blast

lemma sorts_descending_length: "sorts_descending srt \<Longrightarrow> length (srt df) = length df"
  using sorts_descending_mset mset_eq_length by blast

lemma sorts_descending_sorted:
  "sorts_descending srt \<Longrightarrow> sorted_wrt (\<lambda>a b. Hybrid_Score b \<le> Hybrid_Score a) (srt df)"
  by (simp add: sorts_descending_def)

lemma head_prefix: "prefix (head n df) df"
  by (simp add: head_def take_is_prefix)

lemma set_head: "set (head n df) \<subseteq> set df"
  by (simp add: head_def set_take_subset)

lemma length_head_le: "length (head n df) \<le> length df"
  by (auto simp: head_def)

lemma length_head_top: "0 \<le> n \<Longrightarrow> length (head n df) \<le> nat n"
  by (simp add: head_def)

lemma head_all: "int (length df) \<le> n \<Longrightarrow> head n df = df"
  by (simp add: head_def)

text \<open>The three parts of the result.\<close>

lemma get_hybrid_matches_globals: "snd (get_hybrid_matches lib query name_list top_n g) = g"
  by (simp add: get_hybrid_matches_eq split: list.splits)

lemma get_hybrid_matches_ranked:
  "snd (fst (get_hybrid_matches lib query name_list top_n g)) =
     map select_columns (head top_n (sort_values lib (scored lib (name_soundex_map g) query name_list)))"
  by (simp add: get_hybrid_matches_eq split: list.splits)

lemma get_hybrid_matches_best:
  "fst (fst (get_hybrid_matches lib query name_list top_n g)) =
     (case snd (fst (get_hybrid_matches lib query name_list top_n g)) of
        [] \<Rightarrow> None | r # _ \<Rightarrow> Some (r_name r, r_hybrid r))"
  by (simp add: get_hybrid_matches_eq select_columns_def split: list.splits)

text \<open>The scoring step returns every choice with its score.\<close>

lemma set_process_extract_all:
  "set (process_extract scorer query choices (length choices)) =
     (\<lambda>(i, c). (c, scorer query c, i)) ` set (enumerate 0 choices)"
  by (simp add: process_extract_def)

lemma process_extract_score:
  "(c, s, i) \<in> set (process_extract scorer query choices limit) \<Longrightarrow> s = scorer query c \<and> c \<in> set choices"
  by (auto simp: process_extract_def in_set_enumerate_eq dest!: in_set_takeD)

lemma names_process_extract_all:
  "fst ` set (process_extract scorer query choices (length choices)) = set choices"
proof -
  have "fst ` set (process_extract scorer query choices (length choices)) =
          snd ` set (enumerate 0 choices)"
    by (simp add: set_process_extract_all image_image case_prod_beta)
  also have "\<dots> = set (map snd (enumerate 0 choices))"
    by (simp only: set_map)
  also have "\<dots> = set choices"
    by (simp only: map_snd_enumerate)
  finally show ?thesis .
qed


lemma drop_duplicates_seen_names:
  "Matched_Name ` set (drop_duplicates_seen seen df) = Matched_Name ` set df - set seen"
  by (induction df arbitrary: seen) auto

lemma drop_duplicates_seen_distinct:
  "distinct (map Matched_Name (drop_duplicates_seen seen df))"
proof (induction df arbitrary: seen)
  case Nil
  show ?case by simp
next
  case (Cons r df)
  have "Matched_Name r \<notin> Matched_Name ` set (drop_duplicates_seen (Matched_Name r # seen) df)"
    by (simp add: drop_duplicates_seen_names)
  with Cons show ?case by simp
qed



lemma drop_duplicates_names: "Matched_Name ` set (drop_duplicates df) = Matched_Name ` set df"
  by (simp add: drop_duplicates_def drop_duplicates_seen_names)

lemma drop_duplicates_distinct: "distinct (map Matched_Name (drop_duplicates df))"
  by (simp add: drop_duplicates_def drop_duplicates_seen_distinct)


text \<open>The scoring output as a frame, and the surviving candidates.\<close>

lemma DataFrame_row:
  "r \<in> set (DataFrame (process_extract scorer query choices limit)) \<Longrightarrow>
     WRatio_Score r = scorer query (Matched_Name r) \<and> Matched_Name r \<in> set choices"
  by (auto simp: DataFrame_def dest: process_extract_score)

lemma DataFrame_names:
  "Matched_Name ` set (DataFrame (process_extract scorer query choices (length choices))) = set choices"
proof -
  have "Matched_Name ` set (DataFrame (process_extract scorer query choices (length choices))) =
          fst ` set (process_extract scorer query choices (length choices))"
    by (simp add: DataFrame_def image_image case_prod_beta)
  then show ?thesis
    by (simp only: names_process_extract_all)
qed

lemma drop_duplicates_seen_set: "set (drop_duplicates_seen seen df) \<subseteq> set df"
  by (induction df arbitrary: seen) auto

lemma drop_duplicates_set: "set (drop_duplicates df) \<subseteq> set df"
  by (simp add: drop_duplicates_def drop_duplicates_seen_set)


lemma surviving_row:
  assumes "r \<in> set (surviving lib query name_list)"
  shows "WRatio_Score r = fuzz_WRatio lib query (Matched_Name r)"
    and "Matched_Name r \<in> set name_list"
    and "Series_str_lower lib (Matched_Name r) \<noteq> str_lower lib query"
proof -
  let ?D = "DataFrame (process_extract (fuzz_WRatio lib) query name_list (length name_list))"
  from assms have "r \<in> set (filter (\<lambda>r. Series_str_lower lib (Matched_Name r) \<noteq> str_lower lib query) ?D)"
    unfolding surviving_def using drop_duplicates_set by blast
  then have in_D: "r \<in> set ?D" and ne: "Series_str_lower lib (Matched_Name r) \<noteq> str_lower lib query"
    by simp_all
  from DataFrame_row [OF in_D] show "WRatio_Score r = fuzz_WRatio lib query (Matched_Name r)"
    and "Matched_Name r \<in> set name_list"
    by simp_all
  from ne show "Series_str_lower lib (Matched_Name r) \<noteq> str_lower lib query" .
qed

lemma surviving_names:
  "Matched_Name ` set (surviving lib query name_list) =
     {n \<in> set name_list. Series_str_lower lib n \<noteq> str_lower lib query}"
proof -
  have "Matched_Name ` set (surviving lib query name_list) =
      Matched_Name ` {r \<in> set (DataFrame (process_extract (fuzz_WRatio lib) query name_list (length name_list))).
          Series_str_lower lib (Matched_Name r) \<noteq> str_lower lib query}"
    by (simp only: surviving_def drop_duplicates_names set_filter)
  also have "\<dots> = {n \<in> Matched_Name ` set (DataFrame (process_extract (fuzz_WRatio lib) query name_list (length name_list))).
          Series_str_lower lib n \<noteq> str_lower lib query}"
    by blast
  finally show ?thesis
    by (simp only: DataFrame_names)
qed

lemma surviving_distinct: "distinct (map Matched_Name (surviving lib query name_list))"
  by (simp add: surviving_def drop_duplicates_distinct)

lemma length_surviving:
  "length (surviving lib query name_list) =
     card {n \<in> set name_list. Series_str_lower lib n \<noteq> str_lower lib query}"
proof -
  have "length (surviving lib query name_list) = length (map Matched_Name (surviving lib query name_list))"
    by simp
  also have "\<dots> = card (set (map Matched_Name (surviving lib query name_list)))"
    by (simp only: distinct_card [OF surviving_distinct])
  also have "\<dots> = card {n \<in> set name_list. Series_str_lower lib n \<noteq> str_lower lib query}"
    by (simp only: set_map surviving_names)
  finally show ?thesis .
qed

lemma ranked_of_result:
  assumes "get_hybrid_matches lib query name_list top_n g = ((best, ranked), g')"
  shows "ranked = map select_columns
           (head top_n (sort_values lib (scored lib (name_soundex_map g) query name_list)))"
    and "best = (case ranked of [] \<Rightarrow> None | r # _ \<Rightarrow> Some (r_name r, r_hybrid r))"
    and "g' = g"
  using get_hybrid_matches_ranked [of lib query name_list top_n g]
    get_hybrid_matches_best [of lib query name_list top_n g]
    get_hybrid_matches_globals [of lib query name_list top_n g]
  by (simp_all add: assms)

lemma ranked_row_origin:
  assumes srt: "sorts_descending (sort_values lib)"
    and res: "get_hybrid_matches lib query name_list top_n g = ((best, ranked), g')"
    and r: "r \<in> set ranked"
  shows "\<exists>c \<in> set (surviving lib query name_list).
           r_name r = Matched_Name c \<and> r_wratio r = WRatio_Score c \<and>
           r_hybrid r = hybrid_score (name_soundex_map g) (jellyfish_soundex lib query) c"
proof -
  let ?S = "scored lib (name_soundex_map g) query name_list"
  have rk: "ranked = map select_columns (head top_n (sort_values lib ?S))"
    by (rule ranked_of_result(1) [OF res])
  from r have "r \<in> select_columns ` set (head top_n (sort_values lib ?S))"
    by (simp only: rk set_map)
  then obtain s where s: "s \<in> set (head top_n (sort_values lib ?S))" and rs: "r = select_columns s"
    by (rule imageE)
  from s have "s \<in> set (sort_values lib ?S)"
    by (rule subsetD [OF set_head])
  then have "s \<in> set ?S"
    by (simp only: sorts_descending_set [OF srt])
  then have "s \<in> (\<lambda>r. with_hybrid r (hybrid_score (name_soundex_map g) (jellyfish_soundex lib query) r)) `
      set (surviving lib query name_list)"
    by (simp only: scored_def set_map)
  then obtain c where sc: "s = with_hybrid c (hybrid_score (name_soundex_map g) (jellyfish_soundex lib query) c)"
    and c: "c \<in> set (surviving lib query name_list)"
    by (rule imageE)
  from rs sc have "r_name r = Matched_Name c \<and> r_wratio r = WRatio_Score c \<and>
      r_hybrid r = hybrid_score (name_soundex_map g) (jellyfish_soundex lib query) c"
    by (simp add: select_columns_def with_hybrid_def)
  with c show ?thesis by blast
qed



lemma scored_names:
  "map Matched_Name (scored lib idx query name_list) = map Matched_Name (surviving lib query name_list)"
  by (simp add: scored_def with_hybrid_def)

lemma scored_distinct: "distinct (map Matched_Name (scored lib idx query name_list))"
  by (simp only: scored_names surviving_distinct)

lemma length_scored: "length (scored lib idx query name_list) = length (surviving lib query name_list)"
  by (simp add: scored_def)

lemma sorted_names_distinct:
  assumes "sorts_descending srt"
  shows "distinct (map Matched_Name (srt (scored lib idx query name_list)))"
proof -
  have "mset (map Matched_Name (srt (scored lib idx query name_list))) =
        mset (map Matched_Name (scored lib idx query name_list))"
    by (simp only: mset_map sorts_descending_mset [OF assms])
  then show ?thesis
    using scored_distinct mset_eq_imp_distinct_iff by blast
qed

lemma head_take: "\<exists>m. head n df = take m df"
  by (auto simp: head_def)

lemma ranked_names:
  "map r_name (map select_columns df) = map Matched_Name df"
  by (simp add: select_columns_def)


lemma scored_row_hybrid:
  assumes "s \<in> set (scored lib idx query name_list)"
  shows "Hybrid_Score s =
     min 100 (WRatio_Score s +
       10 * (if idx (Matched_Name s) = Some (jellyfish_soundex lib query) then 1 else 0))"
proof -
  from assms have "s \<in> (\<lambda>r. with_hybrid r (hybrid_score idx (jellyfish_soundex lib query) r)) `
      set (surviving lib query name_list)"
    by (simp only: scored_def set_map)
  then obtain c where "s = with_hybrid c (hybrid_score idx (jellyfish_soundex lib query) c)"
    by (rule imageE)
  then show ?thesis
    by (simp add: with_hybrid_def hybrid_score_def)
qed

lemma ranked_sorted:
  assumes srt: "sorts_descending (sort_values lib)"
    and res: "get_hybrid_matches lib query name_list top_n g = ((best, ranked), g')"
  shows "sorted_wrt (\<lambda>a b. r_hybrid b \<le> r_hybrid a) ranked"
proof -
  let ?L = "sort_values lib (scored lib (name_soundex_map g) query name_list)"
  obtain m where m: "head top_n ?L = take m ?L"
    using head_take by blast
  have "sorted_wrt (\<lambda>a b. Hybrid_Score b \<le> Hybrid_Score a) (take m ?L)"
    using sorts_descending_sorted [OF srt] by (rule sorted_wrt_take)
  then have "sorted_wrt (\<lambda>a b. r_hybrid b \<le> r_hybrid a) (map select_columns (take m ?L))"
    by (simp add: sorted_wrt_map select_columns_def)
  then show ?thesis
    by (simp only: ranked_of_result(1) [OF res] m)
qed

lemma ranked_position:
  assumes srt: "sorts_descending (sort_values lib)"
    and res: "get_hybrid_matches lib query name_list top_n g = ((best, ranked), g')"
    and a: "a \<in> set (scored lib (name_soundex_map g) query name_list)"
    and b: "b \<in> set (scored lib (name_soundex_map g) query name_list)"
    and less: "Hybrid_Score b < Hybrid_Score a"
    and j: "j < length ranked" "r_name (ranked ! j) = Matched_Name b"
  shows "\<exists>i<j. r_name (ranked ! i) = Matched_Name a"
proof -
  let ?L = "sort_values lib (scored lib (name_soundex_map g) query name_list)"
  let ?N = "map Matched_Name ?L"
  obtain m where m: "head top_n ?L = take m ?L"
    using head_take by blast
  have names: "map r_name ranked = take m ?N"
    by (simp only: ranked_of_result(1) [OF res] ranked_names m take_map)
  have dist: "distinct ?N"
    by (rule sorted_names_distinct [OF srt])
  have nth_name: "r_name (ranked ! n) = ?N ! n" if "n < length ranked" for n
  proof -
    from that have "r_name (ranked ! n) = map r_name ranked ! n" by simp
    also have "\<dots> = take m ?N ! n" by (simp only: names)
    also from that names have "\<dots> = ?N ! n"
      by (metis length_map length_take min_less_iff_conj nth_take)
    finally show ?thesis .
  qed
  from names have len: "length ranked \<le> length ?L"
    by (metis length_map length_take min.cobounded1)
  from a have "a \<in> set ?L" by (simp only: sorts_descending_set [OF srt])
  then obtain i where i: "i < length ?L" "?L ! i = a"
    by (auto simp: in_set_conv_nth)
  from b have "b \<in> set ?L" by (simp only: sorts_descending_set [OF srt])
  then obtain j' where j': "j' < length ?L" "?L ! j' = b"
    by (auto simp: in_set_conv_nth)
  from j len have jL: "j < length ?L" by simp
  from j nth_name have "?N ! j = Matched_Name b" by simp
  moreover from j' have "?N ! j' = Matched_Name b" by simp
  ultimately have same: "?N ! j = ?N ! j'" by (simp only:)
  have "(?N ! j = ?N ! j') = (j = j')"
    by (rule nth_eq_iff_index_eq [OF dist]) (simp_all add: jL j'(1))
  with same have "j = j'" by (rule iffD1 [rotated])
  with j' have Lj: "?L ! j = b" by simp
  have "i < j"
  proof (rule ccontr)
    assume "\<not> i < j"
    then consider "i = j" | "j < i" by linarith
    then show False
    proof cases
      case 1
      with i Lj less show False by simp
    next
      case 2
      from sorted_wrt_nth_less [OF sorts_descending_sorted [OF srt] 2 i(1)]
      have "Hybrid_Score (?L ! i) \<le> Hybrid_Score (?L ! j)" .
      with i Lj less show False by simp
    qed
  qed
  moreover from this j have "i < length ranked" by simp
  then have "r_name (ranked ! i) = Matched_Name a"
    using nth_name i by simp
  ultimately show ?thesis by blast
qed

lemma sort_singleton:
  assumes "sorts_descending srt"
  shows "srt [x] = [x]"
proof -
  have "mset (srt [x]) = {#x#}"
    by (simp add: sorts_descending_mset [OF assms])
  then show ?thesis
    by (simp add: mset_single_iff_right)
qed

lemma surviving_only_query:
  assumes "Series_str_lower lib query \<noteq> str_lower lib query"
  shows "surviving lib query [query] =
     [\<lparr>Matched_Name = query, WRatio_Score = fuzz_WRatio lib query query, Index = 0\<rparr>]"
  using assms
  by (simp add: surviving_def process_extract_def DataFrame_def drop_duplicates_def)

lemma ranked_names_all:
  assumes srt: "sorts_descending (sort_values lib)"
    and all: "int (length (surviving lib query name_list)) \<le> top_n"
    and res: "get_hybrid_matches lib query name_list top_n g = ((best, ranked), g')"
  shows "r_name ` set ranked = Matched_Name ` set (surviving lib query name_list)"
proof -
  let ?S = "scored lib (name_soundex_map g) query name_list"
  let ?L = "sort_values lib ?S"
  have len: "length ?L = length (surviving lib query name_list)"
    by (simp only: sorts_descending_length [OF srt] length_scored)
  with all have "head top_n ?L = ?L"
    by (simp add: head_all)
  then have "ranked = map select_columns ?L"
    by (simp only: ranked_of_result(1) [OF res])
  then have "r_name ` set ranked = set (map r_name (map select_columns ?L))"
    by (simp only: set_map)
  also have "\<dots> = Matched_Name ` set ?L"
    by (simp only: ranked_names set_map)
  also have "\<dots> = Matched_Name ` set ?S"
    by (simp only: sorts_descending_set [OF srt])
  also have "\<dots> = set (map Matched_Name ?S)"
    by (simp only: set_map)
  also have "\<dots> = Matched_Name ` set (surviving lib query name_list)"
    by (simp only: scored_names set_map)
  finally show ?thesis .
qed

subsection \<open>The sample run\<close>

lemma sample_library_fields:
  "fuzz_WRatio sample_library = prefix_ratio"
  "jellyfish_soundex sample_library = consonant_code"
  "str_lower sample_library = python_lower"
  "Series_str_lower sample_library = arrow_lower"
  "sort_values sample_library = stable_sort_values"
  by (simp_all add: sample_library_def)

lemma sample_surviving: "surviving sample_library ''Githa'' sample_names =
  [\<lparr>Matched_Name = ''Gita'', WRatio_Score = 60, Index = 2\<rparr>,
  \<lparr>Matched_Name = ''Gitu'', WRatio_Score = 60, Index = 4\<rparr>,
  \<lparr>Matched_Name = ''Geetha'', WRatio_Score = 50 / 3, Index = 0\<rparr>,
  \<lparr>Matched_Name = ''Smith'', WRatio_Score = 0, Index = 1\<rparr>]"
  by (simp add: surviving_def sample_library_def sample_names_def process_extract_def DataFrame_def
     drop_duplicates_def ascii_lower_char_def prefix_ratio_def enumerate_eq_zip upt_rec)

lemma sample_index:
  "name_soundex_map sample_globals =
     [''Geetha'' \<mapsto> ''Gt'', ''Smith'' \<mapsto> ''Smt'', ''GITHA'' \<mapsto> ''GITHA'',
      ''Gitu'' \<mapsto> ''Gt'', ''Gita'' \<mapsto> ''Gt'']"
  by (simp add: sample_globals_def module_globals_def build_soundex_map_def sample_library_def
      sample_names_def consonant_code_def)

lemma sample_scored:
  "scored sample_library (name_soundex_map sample_globals)
     ''Githa'' sample_names =
   [\<lparr>Matched_Name = ''Gita'', WRatio_Score = 60, Index = 2, Hybrid_Score = 70\<rparr>,
    \<lparr>Matched_Name = ''Gitu'', WRatio_Score = 60, Index = 4, Hybrid_Score = 70\<rparr>,
    \<lparr>Matched_Name = ''Geetha'', WRatio_Score = 50 / 3, Index = 0, Hybrid_Score = 80 / 3\<rparr>,
    \<lparr>Matched_Name = ''Smith'', WRatio_Score = 0, Index = 1, Hybrid_Score = 0\<rparr>]"
  unfolding scored_def sample_surviving sample_index
  by (simp add: sample_library_fields consonant_code_def hybrid_score_def with_hybrid_def)

lemma sample_run:
  "get_hybrid_matches sample_library ''Githa'' sample_names 3 sample_globals =
  ((Some (''Gita'', 70),
   [\<lparr>r_name = ''Gita'', r_hybrid = 70, r_wratio = 60\<rparr>,
    \<lparr>r_name = ''Gitu'', r_hybrid = 70, r_wratio = 60\<rparr>,
    \<lparr>r_name = ''Geetha'', r_hybrid = 80 / 3, r_wratio = 50 / 3\<rparr>]), sample_globals)"
  unfolding get_hybrid_matches_eq sample_scored
  by (simp add: sample_library_fields stable_sort_values_def head_def select_columns_def)

lemma stale_index:
  "name_soundex_map stale_globals =
     [''Geetha'' \<mapsto> ''Gt'', ''Smith'' \<mapsto> ''Smt'', ''Gitu'' \<mapsto> ''Gt'']"
  by (simp add: stale_globals_def module_globals_def build_soundex_map_def sample_library_fields
      consonant_code_def)

lemma stale_scored:
  "scored sample_library (name_soundex_map stale_globals) ''Githa'' sample_names =
   [\<lparr>Matched_Name = ''Gita'', WRatio_Score = 60, Index = 2, Hybrid_Score = 60\<rparr>,
    \<lparr>Matched_Name = ''Gitu'', WRatio_Score = 60, Index = 4, Hybrid_Score = 70\<rparr>,
    \<lparr>Matched_Name = ''Geetha'', WRatio_Score = 50 / 3, Index = 0, Hybrid_Score = 80 / 3\<rparr>,
    \<lparr>Matched_Name = ''Smith'', WRatio_Score = 0, Index = 1, Hybrid_Score = 0\<rparr>]"
  unfolding scored_def sample_surviving stale_index
  by (simp add: sample_library_fields consonant_code_def hybrid_score_def with_hybrid_def)

lemma stale_run:
  "get_hybrid_matches sample_library ''Githa'' sample_names 3 stale_globals =
  ((Some (''Gitu'', 70),
   [\<lparr>r_name = ''Gitu'', r_hybrid = 70, r_wratio = 60\<rparr>,
    \<lparr>r_name = ''Gita'', r_hybrid = 60, r_wratio = 60\<rparr>,
    \<lparr>r_name = ''Geetha'', r_hybrid = 80 / 3, r_wratio = 50 / 3\<rparr>]), stale_globals)"
  unfolding get_hybrid_matches_eq stale_scored
  by (simp add: sample_library_fields stable_sort_values_def head_def select_columns_def)

lemma stable_sort_values_sorts: "sorts_descending stable_sort_values"
  unfolding sorts_descending_def stable_sort_values_def
proof (intro allI conjI)
  fix df :: "scored_row list"
  show "mset (sort_key (\<lambda>r. - Hybrid_Score r) df) = mset df"
    by (rule mset_sort)
  have "sorted (map (\<lambda>r. - Hybrid_Score r) (sort_key (\<lambda>r. - Hybrid_Score r) df))"
    by (rule sorted_sort_key)
  then show "sorted_wrt (\<lambda>a b. Hybrid_Score b \<le> Hybrid_Score a) (sort_key (\<lambda>r. - Hybrid_Score r) df)"
    by (simp add: sorted_wrt_map)
qed

lemma sample_library_sorts: "sorts_descending (sort_values sample_library)"
  by (simp add: sample_library_fields stable_sort_values_sorts)

lemma common_prefix_le: "common_prefix q c \<le> length q"
  by (induction q c rule: common_prefix.induct) simp_all

lemma prefix_ratio_bounded: "scores_bounded prefix_ratio"
proof -
  have "0 \<le> prefix_ratio q c \<and> prefix_ratio q c \<le> 100" for q c
  proof (cases "q = [] \<or> c = []")
    case True
    then show ?thesis by (simp add: prefix_ratio_def)
  next
    case False
    have "real (common_prefix q c) \<le> real (max (length q) (length c))"
      using common_prefix_le [of q c] by simp
    moreover from False have "0 < real (max (length q) (length c))"
      by (cases q) simp_all
    ultimately have "real (common_prefix q c) / real (max (length q) (length c)) \<le> 1"
      by (simp add: divide_le_eq_1)
    with False show ?thesis
      by (simp add: prefix_ratio_def)
  qed
  then show ?thesis
    by (simp add: scores_bounded_def)
qed


lemma sample_run_10:
  "get_hybrid_matches sample_library ''Githa'' sample_names 10 sample_globals =
  ((Some (''Gita'', 70),
   [\<lparr>r_name = ''Gita'', r_hybrid = 70, r_wratio = 60\<rparr>,
    \<lparr>r_name = ''Gitu'', r_hybrid = 70, r_wratio = 60\<rparr>,
    \<lparr>r_name = ''Geetha'', r_hybrid = 80 / 3, r_wratio = 50 / 3\<rparr>,
    \<lparr>r_name = ''Smith'', r_hybrid = 0, r_wratio = 0\<rparr>]), sample_globals)"
  unfolding get_hybrid_matches_eq sample_scored
  by (simp add: sample_library_fields stable_sort_values_def head_def select_columns_def)

lemma common_prefix_full:
  "common_prefix q c = max (length q) (length c) \<Longrightarrow> q = c"
  by (induction q c rule: common_prefix.induct) (auto split: if_splits)

lemma prefix_ratio_identical: "identical_only_at_100 prefix_ratio"
proof -
  have "c = q" if "prefix_ratio q c = 100" for q c
  proof -
    define x where "x = real (common_prefix q c)"
    define m where "m = real (max (length q) (length c))"
    from that have ne: "\<not> (q = [] \<or> c = [])"
      by (auto simp: prefix_ratio_def)
    then have pos: "0 < m"
      unfolding m_def by (cases q) simp_all
    from that ne have "100 * x / m = 100"
      by (simp add: prefix_ratio_def x_def m_def)
    with pos have "x = m"
      by (simp add: field_simps)
    then have "common_prefix q c = max (length q) (length c)"
      unfolding x_def m_def by (simp only: of_nat_eq_iff)
    then have "q = c"
      by (rule common_prefix_full)
    then show ?thesis
      by simp
  qed
  then show ?thesis
    by (simp add: identical_only_at_100_def)
qed

lemma lowerings_disagree:
  "Series_str_lower sample_library dotted_I \<noteq> str_lower sample_library dotted_I"
  by (simp add: sample_library_fields dotted_I_def)

lemma dotted_surviving:
  "surviving sample_library dotted_I [dotted_I] =
   [\<lparr>Matched_Name = dotted_I, WRatio_Score = 100, Index = 0\<rparr>]"
  by (simp add: surviving_def sample_library_def process_extract_def DataFrame_def
     drop_duplicates_def prefix_ratio_def dotted_I_def)

lemma dotted_scored:
  "scored sample_library (name_soundex_map sample_globals) dotted_I [dotted_I] =
   [\<lparr>Matched_Name = dotted_I, WRatio_Score = 100, Index = 0, Hybrid_Score = 100\<rparr>]"
  unfolding scored_def dotted_surviving sample_index
  by (simp add: sample_library_fields consonant_code_def hybrid_score_def with_hybrid_def dotted_I_def)

lemma dotted_run:
  "get_hybrid_matches sample_library dotted_I [dotted_I] 10 sample_globals =
   ((Some (dotted_I, 100), [\<lparr>r_name = dotted_I, r_hybrid = 100, r_wratio = 100\<rparr>]),
    sample_globals)"
  unfolding get_hybrid_matches_eq dotted_scored
  by (simp add: sample_library_fields stable_sort_values_def head_def select_columns_def)

section \<open>The claims\<close>

text \<open>
  Claim C1. Every row of the returned frame carries the hybrid score
  \<open>min 100 (base + 10 * m)\<close>, where the base score is the scorer's value for the query and
  the row's name, and \<open>m\<close> is 1 when the dictionary holds, for that name, the phonetic code of
  the query, and 0 otherwise. A name that is missing from the dictionary gets no bonus; the
  lookup does not fail.
\<close>

theorem hybrid_score_of_returned_candidate:
  assumes "sorts_descending (sort_values lib)"
    and "get_hybrid_matches lib query name_list top_n g = ((best, ranked), g')"
    and "r \<in> set ranked"
  shows "r_hybrid r =
           min 100 (r_wratio r +
             10 * (if name_soundex_map g (r_name r) = Some (jellyfish_soundex lib query)
                   then 1 else 0)) \<and>
         r_wratio r = fuzz_WRatio lib query (r_name r) \<and>
         (name_soundex_map g (r_name r) = None \<longrightarrow> r_hybrid r = min 100 (r_wratio r))"
proof -
  from ranked_row_origin [OF assms]
  obtain c where c: "c \<in> set (surviving lib query name_list)"
    and eqs: "r_name r = Matched_Name c" "r_wratio r = WRatio_Score c"
      "r_hybrid r = hybrid_score (name_soundex_map g) (jellyfish_soundex lib query) c"
    by blast
  from eqs have "r_hybrid r =
           min 100 (r_wratio r +
             10 * (if name_soundex_map g (r_name r) = Some (jellyfish_soundex lib query)
                   then 1 else 0))"
    by (simp add: hybrid_score_def)
  moreover from surviving_row(1) [OF c] eqs have "r_wratio r = fuzz_WRatio lib query (r_name r)"
    by simp
  ultimately show ?thesis
    by simp
qed

theorem hybrid_score_of_returned_candidate_witness:
  "name_soundex_map stale_globals ''Gita'' = None \<and>
   name_soundex_map stale_globals ''Gitu'' = Some (jellyfish_soundex sample_library ''Githa'') \<and>
   get_hybrid_matches sample_library ''Githa'' sample_names 3 stale_globals =
     ((Some (''Gitu'', 70),
       [\<lparr>r_name = ''Gitu'', r_hybrid = 70, r_wratio = 60\<rparr>,
        \<lparr>r_name = ''Gita'', r_hybrid = 60, r_wratio = 60\<rparr>,
        \<lparr>r_name = ''Geetha'', r_hybrid = 80 / 3, r_wratio = 50 / 3\<rparr>]), stale_globals) \<and>
   (60 :: real) = min 100 60 \<and>
   (70 :: real) = min 100 (60 + 10 * 1) \<and>
   fuzz_WRatio sample_library ''Githa'' ''Gita'' = 60 \<and>
   fuzz_WRatio sample_library ''Githa'' ''Gitu'' = 60"
  using
    hybrid_score_of_returned_candidate [OF sample_library_sorts stale_run,
      of "\<lparr>r_name = ''Gita'', r_hybrid = 60, r_wratio = 60\<rparr>"]
    hybrid_score_of_returned_candidate [OF sample_library_sorts stale_run,
      of "\<lparr>r_name = ''Gitu'', r_hybrid = 70, r_wratio = 60\<rparr>"]
  by (simp add: stale_run stale_index sample_library_fields consonant_code_def)

text \<open>
  Claim C3. When the scorer stays within 0 and 100, every returned row has a hybrid score
  between 0 and 100 that is not below its base score.
\<close>

theorem hybrid_score_bounds:
  assumes "sorts_descending (sort_values lib)"
    and "scores_bounded (fuzz_WRatio lib)"
    and "get_hybrid_matches lib query name_list top_n g = ((best, ranked), g')"
    and "r \<in> set ranked"
  shows "0 \<le> r_hybrid r \<and> r_hybrid r \<le> 100 \<and> r_wratio r \<le> r_hybrid r"
proof -
  from ranked_row_origin [OF assms(1,3,4)]
  obtain c where c: "c \<in> set (surviving lib query name_list)"
    and eqs: "r_name r = Matched_Name c" "r_wratio r = WRatio_Score c"
      "r_hybrid r = hybrid_score (name_soundex_map g) (jellyfish_soundex lib query) c"
    by blast
  from surviving_row(1) [OF c] assms(2)
  have "0 \<le> WRatio_Score c" and "WRatio_Score c \<le> 100"
    by (simp_all add: scores_bounded_def)
  with eqs show ?thesis
    by (simp add: hybrid_score_def)
qed

theorem hybrid_score_bounds_witness:
  "scores_bounded (fuzz_WRatio sample_library) \<and>
   \<lparr>r_name = ''Geetha'', r_hybrid = 80 / 3, r_wratio = 50 / 3\<rparr>
     \<in> set (snd (fst (get_hybrid_matches sample_library ''Githa'' sample_names 3 sample_globals))) \<and>
   (0 :: real) \<le> 80 / 3 \<and> (80 / 3 :: real) \<le> 100 \<and> (50 / 3 :: real) \<le> 80 / 3"
  using hybrid_score_bounds [OF sample_library_sorts _ sample_run,
      of "\<lparr>r_name = ''Geetha'', r_hybrid = 80 / 3, r_wratio = 50 / 3\<rparr>"]
    prefix_ratio_bounded
  by (simp add: sample_run sample_library_fields)

text \<open>
  Claim C4 does not hold of the program. Line 57 lower-cases the names with pandas' string
  accessor and the query with Python's \<^verbatim>\<open>str.lower\<close>. Where the two routines disagree
  on the query, an entry of the reference list that is the query itself passes the filter
  that the comment of line 56 says removes it: when \<open>top_n\<close> is large enough for every
  surviving candidate to be returned, the query is the name of a returned row.
\<close>

theorem query_itself_is_returned:
  assumes "sorts_descending (sort_values lib)"
    and "Series_str_lower lib query \<noteq> str_lower lib query"
    and "query \<in> set name_list"
    and "int (length (surviving lib query name_list)) \<le> top_n"
    and "get_hybrid_matches lib query name_list top_n g = ((best, ranked), g')"
  shows "query \<in> r_name ` set ranked"
proof -
  from assms(2,3)
  have "query \<in> {n \<in> set name_list. Series_str_lower lib n \<noteq> str_lower lib query}"
    by simp
  then have "query \<in> Matched_Name ` set (surviving lib query name_list)"
    by (simp only: surviving_names)
  then show ?thesis
    by (simp only: ranked_names_all [OF assms(1,4,5)])
qed

theorem query_itself_is_returned_witness:
  "Series_str_lower sample_library dotted_I \<noteq> str_lower sample_library dotted_I \<and>
   get_hybrid_matches sample_library dotted_I [dotted_I] 10 sample_globals =
     ((Some (dotted_I, 100), [\<lparr>r_name = dotted_I, r_hybrid = 100, r_wratio = 100\<rparr>]),
      sample_globals) \<and>
   dotted_I \<in> r_name ` set [\<lparr>r_name = dotted_I, r_hybrid = 100, r_wratio = 100\<rparr>]"
proof -
  have mem: "dotted_I \<in> set [dotted_I]"
    by simp
  have few: "int (length (surviving sample_library dotted_I [dotted_I])) \<le> 10"
    by (simp add: dotted_surviving)
  from query_itself_is_returned [OF sample_library_sorts lowerings_disagree mem few dotted_run]
    lowerings_disagree dotted_run
  show ?thesis
    by (simp only: simp_thms)
qed



text \<open>
  Claim C6 does not hold of the program, for the same reason as C4. For a reference list
  whose only entry is the query itself, and \<open>top_n\<close> at least 1, the result is not
  \<open>(None, [])\<close> when the two lower-casing routines disagree on the query: the entry is
  returned as the best match and as the only row.
\<close>

theorem only_entry_equal_to_query_is_best_match:
  assumes "sorts_descending (sort_values lib)"
    and "1 \<le> top_n"
    and "Series_str_lower lib query \<noteq> str_lower lib query"
  shows "get_hybrid_matches lib query [query] top_n g =
     ((Some (query,
         min 100 (fuzz_WRatio lib query query +
           10 * (if name_soundex_map g query = Some (jellyfish_soundex lib query) then 1 else 0))),
       [\<lparr>r_name = query,
         r_hybrid = min 100 (fuzz_WRatio lib query query +
           10 * (if name_soundex_map g query = Some (jellyfish_soundex lib query) then 1 else 0)),
         r_wratio = fuzz_WRatio lib query query\<rparr>]), g)"
proof -
  let ?h = "min 100 (fuzz_WRatio lib query query +
           10 * (if name_soundex_map g query = Some (jellyfish_soundex lib query) then 1 else 0))"
  let ?row = "\<lparr>Matched_Name = query, WRatio_Score = fuzz_WRatio lib query query, Index = 0,
     Hybrid_Score = ?h\<rparr>"
  have sc: "scored lib (name_soundex_map g) query [query] = [?row]"
    by (simp add: scored_def surviving_only_query [OF assms(3)] with_hybrid_def hybrid_score_def)
  have "head top_n (sort_values lib [?row]) = [?row]"
    using assms(2) by (simp add: sort_singleton [OF assms(1)] head_def)
  then show ?thesis
    unfolding get_hybrid_matches_eq sc by (simp add: select_columns_def)
qed

theorem only_entry_equal_to_query_is_best_match_witness:
  "(1 :: int) \<le> 10 \<and>
   Series_str_lower sample_library dotted_I \<noteq> str_lower sample_library dotted_I \<and>
   get_hybrid_matches sample_library dotted_I [dotted_I] 10 sample_globals =
     ((Some (dotted_I, 100), [\<lparr>r_name = dotted_I, r_hybrid = 100, r_wratio = 100\<rparr>]),
      sample_globals)"
proof -
  have one: "(1 :: int) \<le> 10"
    by simp
  have w: "fuzz_WRatio sample_library dotted_I dotted_I = 100"
    by (simp add: sample_library_fields prefix_ratio_def dotted_I_def)
  have miss: "name_soundex_map sample_globals dotted_I = None"
    by (simp add: sample_index dotted_I_def)
  from only_entry_equal_to_query_is_best_match [OF sample_library_sorts one lowerings_disagree,
      of sample_globals]
  have "get_hybrid_matches sample_library dotted_I [dotted_I] 10 sample_globals =
     ((Some (dotted_I, 100), [\<lparr>r_name = dotted_I, r_hybrid = 100, r_wratio = 100\<rparr>]),
      sample_globals)"
    by (simp add: w miss)
  with one lowerings_disagree show ?thesis
    by (simp only: simp_thms)
qed

text \<open>
  Claim C7. With \<open>top_n\<close> at least 1, at most \<open>top_n\<close> rows are returned, and at most as
  many as there are surviving candidates, which is the number of distinct names of the
  reference list that pass the filter of line 57. When \<open>top_n\<close> is not
  smaller than that number, every surviving candidate is returned, and nothing else.
\<close>

theorem top_n_bound:
  assumes "sorts_descending (sort_values lib)" and "1 \<le> top_n"
    and "get_hybrid_matches lib query name_list top_n g = ((best, ranked), g')"
  shows "length ranked \<le> nat top_n \<and>
         length ranked \<le> length (surviving lib query name_list) \<and>
         length (surviving lib query name_list) =
           card {n \<in> set name_list. Series_str_lower lib n \<noteq> str_lower lib query} \<and>
         (int (length (surviving lib query name_list)) \<le> top_n \<longrightarrow>
            length ranked = length (surviving lib query name_list) \<and>
            r_name ` set ranked = {n \<in> set name_list. Series_str_lower lib n \<noteq> str_lower lib query})"
proof -
  let ?S = "scored lib (name_soundex_map g) query name_list"
  let ?L = "sort_values lib ?S"
  have rk: "ranked = map select_columns (head top_n ?L)"
    by (rule ranked_of_result(1) [OF assms(3)])
  have len: "length ?L = length (surviving lib query name_list)"
    by (simp only: sorts_descending_length [OF assms(1)] length_scored)
  have a: "length ranked \<le> nat top_n"
    using length_head_top [of top_n ?L] assms(2) by (simp add: rk)
  have b: "length ranked \<le> length (surviving lib query name_list)"
    using length_head_le [of top_n ?L] by (simp add: rk len)
  have c: "length ranked = length (surviving lib query name_list) \<and>
      r_name ` set ranked = {n \<in> set name_list. Series_str_lower lib n \<noteq> str_lower lib query}"
    if "int (length (surviving lib query name_list)) \<le> top_n"
  proof -
    from that len have "head top_n ?L = ?L"
      by (simp add: head_all)
    then have all: "ranked = map select_columns ?L"
      by (simp only: rk)
    have "r_name ` set ranked = set (map r_name (map select_columns ?L))"
      by (simp only: all set_map)
    also have "\<dots> = Matched_Name ` set ?L"
      by (simp only: ranked_names set_map)
    also have "\<dots> = Matched_Name ` set ?S"
      by (simp only: sorts_descending_set [OF assms(1)])
    also have "\<dots> = set (map Matched_Name ?S)"
      by (simp only: set_map)
    also have "\<dots> = set (map Matched_Name (surviving lib query name_list))"
      by (simp only: scored_names)
    also have "\<dots> = {n \<in> set name_list. Series_str_lower lib n \<noteq> str_lower lib query}"
      by (simp only: set_map surviving_names)
    finally have "r_name ` set ranked = {n \<in> set name_list. Series_str_lower lib n \<noteq> str_lower lib query}" .
    moreover from all len have "length ranked = length (surviving lib query name_list)"
      by simp
    ultimately show ?thesis by simp
  qed
  from a b c length_surviving [of lib query name_list] show ?thesis
    by blast
qed

theorem top_n_bound_witness:
  "length (snd (fst (get_hybrid_matches sample_library ''Githa'' sample_names 3 sample_globals)))
     \<le> nat 3 \<and>
   int (length (surviving sample_library ''Githa'' sample_names)) \<le> 10 \<and>
   length (snd (fst (get_hybrid_matches sample_library ''Githa'' sample_names 10 sample_globals)))
     = length (surviving sample_library ''Githa'' sample_names) \<and>
   length (surviving sample_library ''Githa'' sample_names) = 4"
proof -
  have three: "(1 :: int) \<le> 3" and ten: "(1 :: int) \<le> 10" by simp_all
  from top_n_bound [OF sample_library_sorts three sample_run]
  have a: "length [\<lparr>r_name = ''Gita'', r_hybrid = 70, r_wratio = 60\<rparr>,
       \<lparr>r_name = ''Gitu'', r_hybrid = 70, r_wratio = 60\<rparr>,
       \<lparr>r_name = ''Geetha'', r_hybrid = 80 / 3, r_wratio = 50 / 3\<rparr>] \<le> nat 3"
    by (rule conjunct1)
  have few: "int (length (surviving sample_library ''Githa'' sample_names)) \<le> 10"
    and four: "length (surviving sample_library ''Githa'' sample_names) = 4"
    by (simp_all add: sample_surviving)
  from top_n_bound [OF sample_library_sorts ten sample_run_10] few
  have b: "length [\<lparr>r_name = ''Gita'', r_hybrid = 70, r_wratio = 60\<rparr>,
       \<lparr>r_name = ''Gitu'', r_hybrid = 70, r_wratio = 60\<rparr>,
       \<lparr>r_name = ''Geetha'', r_hybrid = 80 / 3, r_wratio = 50 / 3\<rparr>,
       \<lparr>r_name = ''Smith'', r_hybrid = 0, r_wratio = 0\<rparr>] =
      length (surviving sample_library ''Githa'' sample_names)"
    by blast
  from a b few four show ?thesis
    by (simp only: sample_run sample_run_10 fst_conv snd_conv simp_thms)
qed

text \<open>
  Claim C8. The scorer stays within 0 and 100 and gives 100 to identical strings only, as
  WRatio does. Of two surviving candidates with the same base score, the one whose phonetic
  code is that of the query has the strictly higher hybrid score, and whenever the other
  one is among the returned rows, it is returned too, at an earlier position.
\<close>

theorem phonetic_match_ranks_first:
  assumes "sorts_descending (sort_values lib)"
    and "scores_bounded (fuzz_WRatio lib)"
    and "identical_only_at_100 (fuzz_WRatio lib)"
    and "get_hybrid_matches lib query name_list top_n g = ((best, ranked), g')"
    and "a \<in> set (scored lib (name_soundex_map g) query name_list)"
    and "b \<in> set (scored lib (name_soundex_map g) query name_list)"
    and "WRatio_Score a = WRatio_Score b"
    and "name_soundex_map g (Matched_Name a) = Some (jellyfish_soundex lib query)"
    and "name_soundex_map g (Matched_Name b) \<noteq> Some (jellyfish_soundex lib query)"
  shows "Hybrid_Score b < Hybrid_Score a \<and>
         (\<forall>j<length ranked. r_name (ranked ! j) = Matched_Name b \<longrightarrow>
            (\<exists>i<j. r_name (ranked ! i) = Matched_Name a))"
proof -
  have base: "WRatio_Score s = fuzz_WRatio lib query (Matched_Name s)"
    if "s \<in> set (scored lib (name_soundex_map g) query name_list)" for s
  proof -
    from that obtain c where c: "c \<in> set (surviving lib query name_list)"
      and s: "s = with_hybrid c (hybrid_score (name_soundex_map g) (jellyfish_soundex lib query) c)"
      by (auto simp: scored_def)
    from surviving_row(1) [OF c] s show ?thesis
      by (simp add: with_hybrid_def)
  qed
  from assms(8,9) have names: "Matched_Name a \<noteq> Matched_Name b"
    by auto
  have below: "WRatio_Score a < 100"
  proof (rule ccontr)
    assume "\<not> WRatio_Score a < 100"
    moreover from assms(2) base [OF assms(5)] have "WRatio_Score a \<le> 100"
      by (simp add: scores_bounded_def)
    ultimately have top: "WRatio_Score a = 100"
      by simp
    with base [OF assms(5)] assms(3) have "Matched_Name a = query"
      by (simp add: identical_only_at_100_def)
    moreover from top assms(7) base [OF assms(6)] assms(3) have "Matched_Name b = query"
      by (simp add: identical_only_at_100_def)
    ultimately show False
      using names by simp
  qed
  have ha: "Hybrid_Score a = min 100 (WRatio_Score a + 10)"
    using scored_row_hybrid [OF assms(5)] assms(8) by simp
  have hb: "Hybrid_Score b = min 100 (WRatio_Score a)"
    using scored_row_hybrid [OF assms(6)] assms(7,9) by simp
  from ha hb below have strict: "Hybrid_Score b < Hybrid_Score a"
    by simp
  have "\<exists>i<j. r_name (ranked ! i) = Matched_Name a"
    if "j < length ranked" "r_name (ranked ! j) = Matched_Name b" for j
    using ranked_position [OF assms(1,4,5,6) strict that] .
  with strict show ?thesis
    by blast
qed

theorem phonetic_match_ranks_first_witness:
  "scores_bounded (fuzz_WRatio sample_library) \<and>
   identical_only_at_100 (fuzz_WRatio sample_library) \<and>
   Hybrid_Score \<lparr>Matched_Name = ''Gita'', WRatio_Score = 60, Index = 2, Hybrid_Score = 60\<rparr>
     < Hybrid_Score \<lparr>Matched_Name = ''Gitu'', WRatio_Score = 60, Index = 4, Hybrid_Score = 70\<rparr> \<and>
   r_name (snd (fst (get_hybrid_matches sample_library ''Githa'' sample_names 3 stale_globals)) ! 1)
     = ''Gita'' \<and>
   (\<exists>i<1. r_name (snd (fst (get_hybrid_matches sample_library ''Githa'' sample_names 3
        stale_globals)) ! i) = ''Gitu'')"
proof -
  let ?a = "\<lparr>Matched_Name = ''Gitu'', WRatio_Score = 60, Index = 4, Hybrid_Score = 70\<rparr>"
  let ?b = "\<lparr>Matched_Name = ''Gita'', WRatio_Score = 60, Index = 2, Hybrid_Score = 60\<rparr>"
  have bounded: "scores_bounded (fuzz_WRatio sample_library)"
    by (simp add: sample_library_fields prefix_ratio_bounded)
  have ident: "identical_only_at_100 (fuzz_WRatio sample_library)"
    by (simp add: sample_library_fields prefix_ratio_identical)
  have a: "?a \<in> set (scored sample_library (name_soundex_map stale_globals) ''Githa'' sample_names)"
    and b: "?b \<in> set (scored sample_library (name_soundex_map stale_globals) ''Githa'' sample_names)"
    by (simp_all add: stale_scored)
  have eq: "WRatio_Score ?a = WRatio_Score ?b"
    by simp
  have ma: "name_soundex_map stale_globals (Matched_Name ?a) =
      Some (jellyfish_soundex sample_library ''Githa'')"
    and mb: "name_soundex_map stale_globals (Matched_Name ?b) \<noteq>
      Some (jellyfish_soundex sample_library ''Githa'')"
    by (simp_all add: stale_index sample_library_fields consonant_code_def)
  note th = phonetic_match_ranks_first [OF sample_library_sorts bounded ident stale_run a b eq ma mb]
  from th have less: "Hybrid_Score ?b < Hybrid_Score ?a"
    by (rule conjunct1)
  from th
  have "\<forall>j<3. r_name ([\<lparr>r_name = ''Gitu'', r_hybrid = 70, r_wratio = 60\<rparr>,
          \<lparr>r_name = ''Gita'', r_hybrid = 60, r_wratio = 60\<rparr>,
          \<lparr>r_name = ''Geetha'', r_hybrid = 80 / 3, r_wratio = 50 / 3\<rparr>] ! j) = ''Gita'' \<longrightarrow>
       (\<exists>i<j. r_name ([\<lparr>r_name = ''Gitu'', r_hybrid = 70, r_wratio = 60\<rparr>,
          \<lparr>r_name = ''Gita'', r_hybrid = 60, r_wratio = 60\<rparr>,
          \<lparr>r_name = ''Geetha'', r_hybrid = 80 / 3, r_wratio = 50 / 3\<rparr>] ! i) = ''Gitu'')"
    by simp
  then have "\<exists>i<1. r_name ([\<lparr>r_name = ''Gitu'', r_hybrid = 70, r_wratio = 60\<rparr>,
          \<lparr>r_name = ''Gita'', r_hybrid = 60, r_wratio = 60\<rparr>,
          \<lparr>r_name = ''Geetha'', r_hybrid = 80 / 3, r_wratio = 50 / 3\<rparr>] ! i) = ''Gitu''"
    by (rule allE [where x = 1]) simp
  with bounded ident less show ?thesis
    by (simp add: stale_run)
qed

text \<open>
  Claim C10. The function hands back the globals it was given: the reference list and
  the dictionary of phonetic codes are read, never changed.
\<close>

theorem ranking_leaves_globals_unchanged:
  "snd (get_hybrid_matches lib query name_list top_n g) = g \<and>
   names (snd (get_hybrid_matches lib query name_list top_n g)) = names g \<and>
   name_soundex_map (snd (get_hybrid_matches lib query name_list top_n g)) = name_soundex_map g"
proof -
  have row: "snd (calculate_bonus_score qs row g0) = g0" for qs row g0
    by (simp add: calculate_bonus_score_def Let_def)
  have rows: "snd (df_apply (calculate_bonus_score qs) df g0) = g0" for qs df g0
  proof (induction df arbitrary: g0)
    case Nil
    show ?case by simp
  next
    case (Cons r df)
    have "snd (df_apply (calculate_bonus_score qs) (r # df) g0) =
        snd (df_apply (calculate_bonus_score qs) df (snd (calculate_bonus_score qs r g0)))"
      by (simp add: Let_def split_beta)
    also have "\<dots> = snd (calculate_bonus_score qs r g0)"
      by (rule Cons.IH)
    also have "\<dots> = g0"
      by (rule row)
    finally show ?case .
  qed
  have "snd (get_hybrid_matches lib query name_list top_n g) = g"
    by (simp add: get_hybrid_matches_def Let_def split_beta rows split: list.splits)
  then show ?thesis
    by simp
qed

end
